theory Spec2Isabelle
  imports Complex_Main "HOL-Library.Sublist" "HOL-Library.Multiset"
begin

section \<open>Python strings\<close>

text \<open>
  Skill names are Python \<^verbatim>\<open>str\<close> values; they are modelled as \<^typ>\<open>string\<close> over the
  ASCII range. \<^verbatim>\<open>str.lower\<close> maps the 26 capital letters to their small forms and leaves
  every other character alone.
\<close>

definition lower_char :: "char \<Rightarrow> char" where
  "lower_char c =
     (case map_of (zip ''ABCDEFGHIJKLMNOPQRSTUVWXYZ'' ''abcdefghijklmnopqrstuvwxyz'') c of
        Some d \<Rightarrow> d
      | None \<Rightarrow> c)"

definition lower :: "string \<Rightarrow> string" where
  "lower s = map lower_char s"

text \<open>
  \<^verbatim>\<open>str.strip()\<close> removes leading and trailing whitespace. In the ASCII range the
  characters for which \<^verbatim>\<open>str.isspace\<close> holds are TAB, LF, VT, FF, CR, the four
  separators 0x1C..0x1F and the blank.
\<close>

definition is_space :: "char \<Rightarrow> bool" where
  "is_space c \<longleftrightarrow>
     c \<in> set [CHR 0x09, CHR 0x0A, CHR 0x0B, CHR 0x0C, CHR 0x0D,
               CHR 0x1C, CHR 0x1D, CHR 0x1E, CHR 0x1F, CHR '' '']"

definition strip :: "string \<Rightarrow> string" where
  "strip s = rev (dropWhile is_space (rev (dropWhile is_space s)))"

text \<open>
  The substring test \<^verbatim>\<open>a in b\<close> on strings: \<open>a\<close> occurs in \<open>b\<close> at some offset.
\<close>

fun py_in :: "string \<Rightarrow> string \<Rightarrow> bool" where
  "py_in a [] = (a = [])"
| "py_in a (y # ys) = (prefix a (y # ys) \<or> py_in a ys)"

text \<open>\<^verbatim>\<open>" ".join(xs)\<close>\<close>

fun join_space :: "string list \<Rightarrow> string" where
  "join_space [] = []"
| "join_space [x] = x"
| "join_space (x # y # ys) = x @ '' '' @ join_space (y # ys)"

text \<open>
  \<^verbatim>\<open>str(n)\<close> for a non-negative integer, as the f-string of
  \<^verbatim>\<open>get_learning_path\<close> formats it: the decimal digits, most significant first.
\<close>

definition digit_char :: "nat \<Rightarrow> char" where
  "digit_char d = ''0123456789'' ! (d mod 10)"

fun str_nat :: "nat \<Rightarrow> string" where
  "str_nat n = (if n < 10 then [digit_char n] else str_nat (n div 10) @ [digit_char (n mod 10)])"

declare str_nat.simps [simp del]

section \<open>Python sets of strings\<close>

text \<open>
  \<^verbatim>\<open>analyze_skill_gap\<close> builds \<^verbatim>\<open>set(...)\<close> objects and iterates over them. A CPython
  set is a hash table: it drops duplicates, and the order in which a \<^verbatim>\<open>for\<close> loop
  visits its elements is decided by the string hashes (seeded per process), not by the
  order of insertion. The model therefore takes the iteration order as a parameter
  \<open>it\<close>: \<open>it xs\<close> is the sequence in which the process at hand iterates over
  \<^verbatim>\<open>set(xs)\<close>. All that the language promises about it is \<open>set_iter_ok\<close>: every
  element of \<open>xs\<close> is visited exactly once.
\<close>

type_synonym set_iter = "string list \<Rightarrow> string list"

definition set_iter_ok :: "set_iter \<Rightarrow> bool" where
  "set_iter_ok it \<longleftrightarrow> (\<forall>xs. distinct (it xs) \<and> set (it xs) = set xs)"

section \<open>The career catalog\<close>

text \<open>
  One value of \<^verbatim>\<open>CAREER_DATABASE\<close>. The catalog itself is a Python dict, which keeps
  its keys in insertion order: an association list, looked up with \<open>map_of\<close>.
\<close>

record career_info =
  skills :: "string list"
  description :: string
  salary_range :: string
  growth :: string
  experience_level :: string

type_synonym career_db = "(string \<times> career_info) list"

section \<open>Skill gap analysis\<close>

text \<open>
  The dict returned by \<^verbatim>\<open>analyze_skill_gap\<close> when the career is known.
  \<open>match_percentage\<close> is a Python float; the model computes it over the reals.
\<close>

record gap_report =
  matched_skills :: "string list"
  missing_skills :: "string list"
  match_percentage :: real
  total_required :: nat
  total_matched :: nat

text \<open>
  The function returns the empty dict \<^verbatim>\<open>{}\<close> for an unknown career and the filled
  dict otherwise.
\<close>

datatype gap_result = Empty_Dict | Gap_Report gap_report

text \<open>
  The inner loop \<^verbatim>\<open>for user_skill in user_skills_set: if ...: matched = True; break\<close>.
  Its result is the final value of \<^verbatim>\<open>matched\<close>.
\<close>

fun partial_match :: "string list \<Rightarrow> string \<Rightarrow> bool" where
  "partial_match [] skill_lower = False"
| "partial_match (user_skill # rest) skill_lower =
     (if py_in user_skill skill_lower \<or> py_in skill_lower user_skill then True
      else partial_match rest skill_lower)"

text \<open>
  The outer loop \<^verbatim>\<open>for skill in required_skills\<close>, threading the two result lists
  \<^verbatim>\<open>matched_skills\<close> and \<^verbatim>\<open>missing_skills\<close>; \<^verbatim>\<open>append\<close> adds at the end.
\<close>

fun gap_loop :: "string list \<Rightarrow> string list \<Rightarrow> string list \<times> string list
    \<Rightarrow> string list \<times> string list" where
  "gap_loop user_skills_set [] (matched, missing) = (matched, missing)"
| "gap_loop user_skills_set (skill # rest) (matched, missing) =
     (let skill_lower = lower skill in
      if skill_lower \<in> set user_skills_set
      then gap_loop user_skills_set rest (matched @ [skill], missing)
      else if partial_match user_skills_set skill_lower
      then gap_loop user_skills_set rest (matched @ [skill], missing)
      else gap_loop user_skills_set rest (matched, missing @ [skill]))"

definition analyze_skill_gap :: "set_iter \<Rightarrow> career_db \<Rightarrow> string list \<Rightarrow> string \<Rightarrow> gap_result" where
  "analyze_skill_gap it db user_skills target_career =
     (case map_of db target_career of
        None \<Rightarrow> Empty_Dict
      | Some info \<Rightarrow>
          (let required_skills = it (skills info);
               user_skills_set = it (map (\<lambda>s. strip (lower s)) user_skills);
               (matched, missing) = gap_loop user_skills_set required_skills ([], []);
               pct = (if required_skills \<noteq> []
                      then real (length matched) / real (length required_skills) * 100
                      else 0)
           in Gap_Report \<lparr>matched_skills = matched, missing_skills = missing,
                match_percentage = pct, total_required = length required_skills,
                total_matched = length matched\<rparr>))"

section \<open>Learning paths\<close>

text \<open>One entry of \<^verbatim>\<open>skills_to_learn\<close>: a dict with the keys skill, level, resources, time.\<close>

record skill_bundle =
  bundle_skill :: string
  level :: string
  resources :: "string list"
  time :: string

text \<open>
  The local table \<^verbatim>\<open>skill_priority\<close> of \<^verbatim>\<open>get_learning_path\<close>: a dict literal with
  five keys, each mapped to its level, resources and time.
\<close>

definition skill_priority_items :: "(string \<times> string \<times> string list \<times> string) list" where
  "skill_priority_items =
     [(''Python'', ''Beginner-Intermediate'', [''Python.org'', ''Real Python'', ''Codecademy''], ''2-3 months''),
      (''Machine Learning'', ''Intermediate-Advanced'', [''Coursera ML Course'', ''Fast.ai'', ''Kaggle''], ''3-4 months''),
      (''SQL'', ''Beginner'', [''SQLBolt'', ''Mode Analytics'', ''LeetCode''], ''1-2 months''),
      (''Cloud Computing'', ''Intermediate'', [''AWS Training'', ''Cloud Academy'', ''A Cloud Guru''], ''2-3 months''),
      (''Data Visualization'', ''Beginner-Intermediate'', [''Tableau Public'', ''DataCamp'', ''Storytelling with Data''], ''1-2 months'')]"

definition skill_priority :: "string \<rightharpoonup> string \<times> string list \<times> string" where
  "skill_priority = map_of skill_priority_items"

record learning_plan =
  career :: string
  skills_to_learn :: "skill_bundle list"
  estimated_time :: string

text \<open>
  The loop \<^verbatim>\<open>for skill in missing_skills\<close>, threading \<^verbatim>\<open>learning_path\<close>. The test
  \<^verbatim>\<open>skill in skill_priority\<close> is dict membership: equality of strings, case included.
\<close>

fun learning_loop :: "string list \<Rightarrow> skill_bundle list \<Rightarrow> skill_bundle list" where
  "learning_loop [] learning_path = learning_path"
| "learning_loop (s # rest) learning_path =
     (case skill_priority s of
        Some (lv, rs, tm) \<Rightarrow>
          learning_loop rest
            (learning_path @ [\<lparr>bundle_skill = s, level = lv, resources = rs, time = tm\<rparr>])
      | None \<Rightarrow>
          learning_loop rest
            (learning_path @ [\<lparr>bundle_skill = s, level = ''Intermediate'',
               resources = [''Online Courses'', ''Documentation'', ''Practice Projects''],
               time = ''2-3 months''\<rparr>]))"

definition get_learning_path :: "string list \<Rightarrow> string \<Rightarrow> learning_plan" where
  "get_learning_path missing c =
     \<lparr>career = c,
      skills_to_learn = learning_loop missing [],
      estimated_time =
        str_nat (length missing * 2) @ ''-'' @ str_nat (length missing * 3) @ '' months''\<rparr>"

section \<open>The text model: TF-IDF vectors and cosine similarity\<close>

text \<open>
  \<^verbatim>\<open>_build_model\<close> and \<^verbatim>\<open>recommend_careers\<close> call scikit-learn's
  \<^verbatim>\<open>TfidfVectorizer()\<close> and \<^verbatim>\<open>cosine_similarity\<close>, and NumPy's \<^verbatim>\<open>argsort\<close>. These
  library functions are modelled after their documented default behaviour, with Python
  floats read as real numbers.

  The default analyzer lower-cases the document and returns the matches of the pattern
  \<^verbatim>\<open>\b\w\w+\b\<close>: the maximal runs of word characters (letters, digits, underscore) that
  are at least two characters long.
\<close>

definition word_char :: "char \<Rightarrow> bool" where
  "word_char c \<longleftrightarrow>
     c \<in> set ''abcdefghijklmnopqrstuvwxyzABCDEFGHIJKLMNOPQRSTUVWXYZ0123456789_''"

fun word_runs :: "string \<Rightarrow> string \<Rightarrow> string list" where
  "word_runs cur [] = [cur]"
| "word_runs cur (c # cs) =
     (if word_char c then word_runs (cur @ [c]) cs else cur # word_runs [] cs)"

definition tokenize :: "string \<Rightarrow> string list" where
  "tokenize doc = filter (\<lambda>w. 2 \<le> length w) (word_runs [] (lower doc))"

text \<open>
  Fitting: the vocabulary is the distinct tokens of the corpus (scikit-learn numbers them
  in sorted order; only sums over all of them are used below, so the numbering does not
  matter). The smoothed inverse document frequency of a term \<open>t\<close> over \<open>n\<close>
  documents is \<open>ln ((1 + n) / (1 + df t)) + 1\<close>.
\<close>

definition fit_vocabulary :: "string list \<Rightarrow> string list" where
  "fit_vocabulary docs = remdups (concat (map tokenize docs))"

definition doc_freq :: "string list \<Rightarrow> string \<Rightarrow> nat" where
  "doc_freq docs t = length (filter (\<lambda>d. t \<in> set (tokenize d)) docs)"

definition fit_idf :: "string list \<Rightarrow> real list" where
  "fit_idf docs =
     map (\<lambda>t. ln ((1 + real (length docs)) / (1 + real (doc_freq docs t))) + 1)
       (fit_vocabulary docs)"

definition l2_norm :: "real list \<Rightarrow> real" where
  "l2_norm v = sqrt (sum_list (map (\<lambda>x. x * x) v))"

text \<open>Row normalisation leaves a row of norm zero as it is.\<close>

definition l2_normalize :: "real list \<Rightarrow> real list" where
  "l2_normalize v = (if l2_norm v = 0 then v else map (\<lambda>x. x / l2_norm v) v)"

definition dot :: "real list \<Rightarrow> real list \<Rightarrow> real" where
  "dot u v = sum_list (map2 (*) u v)"

text \<open>
  \<^verbatim>\<open>vectorizer.transform([doc])\<close>: term counts over the fitted vocabulary (tokens outside
  it are ignored), weighted by idf, then normalised.
\<close>

definition tfidf_transform :: "string list \<Rightarrow> real list \<Rightarrow> string \<Rightarrow> real list" where
  "tfidf_transform vocab idfs doc =
     l2_normalize (map2 (*) (map (\<lambda>t. real (count_list (tokenize doc) t)) vocab) idfs)"

text \<open>
  \<^verbatim>\<open>cosine_similarity(user_vector, skill_matrix)[0]\<close>: both arguments are normalised
  row by row and multiplied.
\<close>

definition cosine_similarity :: "real list \<Rightarrow> real list list \<Rightarrow> real list" where
  "cosine_similarity u M = map (\<lambda>row. dot (l2_normalize u) (l2_normalize row)) M"

section \<open>The engine\<close>

datatype py_error = ValueError | IndexError | KeyError

text \<open>
  The attributes of a \<^verbatim>\<open>CareerRecommendationEngine\<close> after \<^verbatim>\<open>__init__\<close>; the fitted
  vectorizer is its vocabulary and its idf weights.
\<close>

record engine =
  career_database :: career_db
  vocabulary :: "string list"
  idf :: "real list"
  skill_matrix :: "real list list"
  career_names :: "string list"

definition career_texts :: "career_db \<Rightarrow> string list" where
  "career_texts db = map (\<lambda>(name, info). join_space (skills info)) db"

definition engine_of :: "career_db \<Rightarrow> engine" where
  "engine_of db =
     (let docs = career_texts db; vocab = fit_vocabulary docs; idfs = fit_idf docs
      in \<lparr>career_database = db, vocabulary = vocab, idf = idfs,
          skill_matrix = map (tfidf_transform vocab idfs) docs,
          career_names = map fst db\<rparr>)"

text \<open>
  \<^verbatim>\<open>fit_transform\<close> raises \<^verbatim>\<open>ValueError\<close> (``empty vocabulary'') when the corpus has no
  token at all, so the constructor fails on such a catalog.
\<close>

definition build_model :: "career_db \<Rightarrow> py_error + engine" where
  "build_model db =
     (if fit_vocabulary (career_texts db) = [] then Inl ValueError else Inr (engine_of db))"

text \<open>
  \<^verbatim>\<open>np.argsort\<close> returns the indices that put the array in ascending order. Its default
  sort is not a stable one by contract, so the function is a parameter \<open>srt\<close> of the
  model, and \<open>argsort_ok\<close> is what NumPy promises of it. In its portable
  implementation the default sort finishes an array of fewer than 17 elements, such as
  the scores of the shipped catalog, by insertion sort with strict comparisons, which
  keeps equal elements in index order: \<open>argsort_stable\<close>.
\<close>

type_synonym argsort = "real list \<Rightarrow> nat list"

definition argsort_ok :: "argsort \<Rightarrow> bool" where
  "argsort_ok srt \<longleftrightarrow>
     (\<forall>xs. mset (srt xs) = mset [0..<length xs] \<and> sorted (map (\<lambda>i. xs ! i) (srt xs)))"

definition argsort_stable :: argsort where
  "argsort_stable xs = sort_key (\<lambda>i. xs ! i) [0..<length xs]"

text \<open>The slice \<^verbatim>\<open>xs[:n]\<close> for a Python int \<open>n\<close>: a negative \<open>n\<close> counts from the end.\<close>

definition slice_to :: "int \<Rightarrow> 'a list \<Rightarrow> 'a list" where
  "slice_to n xs = (if 0 \<le> n then take (nat n) xs else take (length xs - nat (- n)) xs)"

type_synonym recommendation = "string \<times> real \<times> gap_result \<times> career_info"

definition similarities :: "engine \<Rightarrow> string list \<Rightarrow> real list" where
  "similarities eng user_skills =
     (let user_skills_text = join_space user_skills;
          user_vector = tfidf_transform (vocabulary eng) (idf eng) user_skills_text
      in cosine_similarity user_vector (skill_matrix eng))"

text \<open>
  The loop \<^verbatim>\<open>for idx in top_indices\<close>. Indexing a list out of range raises
  \<^verbatim>\<open>IndexError\<close> and a missing dict key raises \<^verbatim>\<open>KeyError\<close>.
\<close>

fun recommend_loop :: "set_iter \<Rightarrow> engine \<Rightarrow> string list \<Rightarrow> real list \<Rightarrow> nat list
    \<Rightarrow> recommendation list \<Rightarrow> py_error + recommendation list" where
  "recommend_loop it eng user_skills sims [] recommendations = Inr recommendations"
| "recommend_loop it eng user_skills sims (idx # rest) recommendations =
     (if length (career_names eng) \<le> idx then Inl IndexError
      else if length sims \<le> idx then Inl IndexError
      else
        (let career_name = career_names eng ! idx;
             similarity_score = sims ! idx * 100;
             gap_analysis = analyze_skill_gap it (career_database eng) user_skills career_name
         in case map_of (career_database eng) career_name of
              None \<Rightarrow> Inl KeyError
            | Some info \<Rightarrow>
                recommend_loop it eng user_skills sims rest
                  (recommendations @ [(career_name, similarity_score, gap_analysis, info)])))"

definition recommend_careers :: "set_iter \<Rightarrow> argsort \<Rightarrow> engine \<Rightarrow> string list \<Rightarrow> int
    \<Rightarrow> py_error + recommendation list" where
  "recommend_careers it srt eng user_skills top_n =
     (let sims = similarities eng user_skills;
          top_indices = slice_to top_n (rev (srt sims))
      in recommend_loop it eng user_skills sims top_indices [])"

section \<open>The shipped catalog\<close>

definition CAREER_DATABASE :: career_db where
  "CAREER_DATABASE =
     [(''Data Scientist'',
        \<lparr>skills = [''Python'', ''Machine Learning'', ''Statistics'', ''SQL'', ''Data Visualization'', ''Deep Learning'', ''NLP''],
         description = ''Analyze complex data to extract insights and build predictive models'',
         salary_range = ''$90,000 - $150,000'', growth = ''High'', experience_level = ''2-5 years''\<rparr>),
      (''Software Engineer'',
        \<lparr>skills = [''Python'', ''Java'', ''JavaScript'', ''System Design'', ''Databases'', ''Cloud Computing'', ''Git''],
         description = ''Design, develop, and maintain software applications'',
         salary_range = ''$80,000 - $140,000'', growth = ''Very High'', experience_level = ''0-5 years''\<rparr>),
      (''Product Manager'',
        \<lparr>skills = [''Product Strategy'', ''Market Research'', ''Agile'', ''Communication'', ''Analytics'', ''Leadership'', ''UX''],
         description = ''Lead product development from concept to launch'',
         salary_range = ''$100,000 - $160,000'', growth = ''High'', experience_level = ''3-7 years''\<rparr>),
      (''DevOps Engineer'',
        \<lparr>skills = [''Docker'', ''Kubernetes'', ''AWS'', ''CI/CD'', ''Linux'', ''Scripting'', ''Monitoring''],
         description = ''Bridge development and operations for efficient software delivery'',
         salary_range = ''$95,000 - $145,000'', growth = ''Very High'', experience_level = ''2-5 years''\<rparr>),
      (''UX Designer'',
        \<lparr>skills = [''Figma'', ''User Research'', ''Prototyping'', ''Design Thinking'', ''HTML/CSS'', ''Wireframing'', ''Usability Testing''],
         description = ''Create intuitive and user-friendly digital experiences'',
         salary_range = ''$70,000 - $120,000'', growth = ''High'', experience_level = ''1-4 years''\<rparr>),
      (''Cloud Architect'',
        \<lparr>skills = [''AWS'', ''Azure'', ''GCP'', ''Cloud Security'', ''Architecture'', ''Infrastructure'', ''Kubernetes''],
         description = ''Design and manage cloud infrastructure solutions'',
         salary_range = ''$110,000 - $170,000'', growth = ''Very High'', experience_level = ''5-10 years''\<rparr>),
      (''AI Engineer'',
        \<lparr>skills = [''Python'', ''TensorFlow'', ''PyTorch'', ''MLOps'', ''Deep Learning'', ''Computer Vision'', ''NLP''],
         description = ''Build and deploy AI/ML models at scale'',
         salary_range = ''$100,000 - $160,000'', growth = ''Very High'', experience_level = ''2-5 years''\<rparr>),
      (''Business Analyst'',
        \<lparr>skills = [''SQL'', ''Excel'', ''Data Analysis'', ''Requirements Gathering'', ''Stakeholder Management'', ''Power BI'', ''Documentation''],
         description = ''Analyze business processes and recommend data-driven solutions'',
         salary_range = ''$65,000 - $110,000'', growth = ''Medium'', experience_level = ''1-4 years''\<rparr>),
      (''Cybersecurity Specialist'',
        \<lparr>skills = [''Network Security'', ''Ethical Hacking'', ''SIEM'', ''Compliance'', ''Risk Assessment'', ''Penetration Testing'', ''Firewalls''],
         description = ''Protect organizations from cyber threats and vulnerabilities'',
         salary_range = ''$85,000 - $140,000'', growth = ''Very High'', experience_level = ''2-5 years''\<rparr>),
      (''Data Engineer'',
        \<lparr>skills = [''Python'', ''SQL'', ''ETL'', ''Big Data'', ''Spark'', ''Hadoop'', ''Data Warehousing''],
         description = ''Build and maintain data pipelines and infrastructure'',
         salary_range = ''$90,000 - $145,000'', growth = ''Very High'', experience_level = ''2-5 years''\<rparr>)]"

section \<open>Notions used to state the properties\<close>

text \<open>
  The test the two loops apply to one required skill, over the set of normalised user
  skills: equal to one of them, or a substring of one, or one is a substring of it.
\<close>

definition skill_hit :: "string set \<Rightarrow> string \<Rightarrow> bool" where
  "skill_hit U r \<longleftrightarrow> lower r \<in> U \<or> (\<exists>u\<in>U. py_in u (lower r) \<or> py_in (lower r) u)"

text \<open>The set of normalised user skills: each one lower-cased, then stripped.\<close>

definition user_set :: "string list \<Rightarrow> string set" where
  "user_set us = (\<lambda>s. strip (lower s)) ` set us"

text \<open>The entry of the shipped catalog under the key \<^verbatim>\<open>"Data Scientist"\<close>.\<close>

definition data_scientist :: career_info where
  "data_scientist =
     \<lparr>skills = [''Python'', ''Machine Learning'', ''Statistics'', ''SQL'', ''Data Visualization'', ''Deep Learning'', ''NLP''],
      description = ''Analyze complex data to extract insights and build predictive models'',
      salary_range = ''$90,000 - $150,000'', growth = ''High'', experience_level = ''2-5 years''\<rparr>"

text \<open>
  Two iteration orders that satisfy \<open>set_iter_ok\<close>: \<open>remdups\<close> visits the elements in
  the order they were inserted, \<open>reversed_iter\<close> visits the last inserted first. String
  hashes are seeded per process, so a set of strings can come out in either order.
\<close>

definition reversed_iter :: set_iter where
  "reversed_iter xs = rev (remdups xs)"

text \<open>
  The bundle the specification assigns to a skill: the table entry when the skill is a key
  of the table, the default bundle otherwise.
\<close>

definition spec_bundle :: "string \<Rightarrow> skill_bundle" where
  "spec_bundle s =
     (case skill_priority s of
        Some (lv, rs, tm) \<Rightarrow> \<lparr>bundle_skill = s, level = lv, resources = rs, time = tm\<rparr>
      | None \<Rightarrow> \<lparr>bundle_skill = s, level = ''Intermediate'',
          resources = [''Online Courses'', ''Documentation'', ''Practice Projects''],
          time = ''2-3 months''\<rparr>)"

text \<open>Reading a decimal numeral back, to say what \<open>str_nat\<close> prints.\<close>

definition digit_value :: "char \<Rightarrow> nat" where
  "digit_value c = of_char c - 48"

definition read_nat :: "string \<Rightarrow> nat" where
  "read_nat s = foldl (\<lambda>acc c. 10 * acc + digit_value c) 0 s"

text \<open>
  One tuple of the list \<^verbatim>\<open>recommend_careers\<close> returns, for the career at index \<open>idx\<close> of
  \<^verbatim>\<open>career_names\<close>, and the first two components of such a tuple.
\<close>

definition rec_entry :: "set_iter \<Rightarrow> engine \<Rightarrow> string list \<Rightarrow> real list \<Rightarrow> nat \<Rightarrow> recommendation" where
  "rec_entry it eng us sims idx =
     (career_names eng ! idx, sims ! idx * 100,
      analyze_skill_gap it (career_database eng) us (career_names eng ! idx),
      the (map_of (career_database eng) (career_names eng ! idx)))"

definition rec_name :: "recommendation \<Rightarrow> string" where
  "rec_name r = fst r"

definition rec_score :: "recommendation \<Rightarrow> real" where
  "rec_score r = fst (snd r)"

text \<open>The names and scores of a result, for stating concrete runs.\<close>

definition name_scores :: "py_error + recommendation list \<Rightarrow> py_error + (string \<times> real) list" where
  "name_scores res =
     (case res of Inl e \<Rightarrow> Inl e | Inr recs \<Rightarrow> Inr (map (\<lambda>r. (rec_name r, rec_score r)) recs))"

text \<open>
  The order of two catalog indices in a ranking that breaks ties by descending index:
  \<open>i\<close> stands before \<open>j\<close> when its score is higher, or equal with \<open>j < i\<close>.
\<close>

definition tie_desc :: "real list \<Rightarrow> nat \<Rightarrow> nat \<Rightarrow> bool" where
  "tie_desc xs i j \<longleftrightarrow> xs ! j < xs ! i \<or> (xs ! j = xs ! i \<and> j < i)"

text \<open>A catalog with a single career, small enough to compute its scores by hand.\<close>

definition analyst_db :: career_db where
  "analyst_db =
     [(''Analyst'', \<lparr>skills = [''SQL'', ''Excel''], description = ''Reports and dashboards'',
        salary_range = ''n/a'', growth = ''Medium'', experience_level = ''0-2 years''\<rparr>)]"

section \<open>Strings and the two loops of the gap analysis\<close>

lemma py_in_iff: "py_in a b \<longleftrightarrow> (\<exists>ps ss. b = ps @ a @ ss)"
proof (induction b)
  case Nil
  then show ?case by auto
next
  case (Cons y ys)
  show ?case
  proof
    assume "py_in a (y # ys)"
    then consider "prefix a (y # ys)" | "py_in a ys" by auto
    then show "\<exists>ps ss. y # ys = ps @ a @ ss"
    proof cases
      case 1
      then obtain ss where "y # ys = a @ ss" by (auto simp: prefix_def)
      then have "y # ys = [] @ a @ ss" by simp
      then show ?thesis by blast
    next
      case 2
      with Cons.IH obtain ps ss where "ys = ps @ a @ ss" by blast
      then have "y # ys = (y # ps) @ a @ ss" by simp
      then show ?thesis by blast
    qed
  next
    assume "\<exists>ps ss. y # ys = ps @ a @ ss"
    then obtain ps ss where eq: "y # ys = ps @ a @ ss" by blast
    show "py_in a (y # ys)"
    proof (cases ps)
      case Nil
      with eq have "prefix a (y # ys)" by (simp add: prefix_def)
      then show ?thesis by simp
    next
      case (Cons p ps')
      with eq have "ys = ps' @ a @ ss" by simp
      with Cons.IH have "py_in a ys" by blast
      then show ?thesis by simp
    qed
  qed
qed

lemma py_in_Nil: "py_in [] b"
  by (induction b) auto

lemma partial_match_iff:
  "partial_match us r \<longleftrightarrow> (\<exists>u\<in>set us. py_in u r \<or> py_in r u)"
  by (induction us) auto

lemma gap_loop_eq:
  "gap_loop us rs (m, mi) =
     (m @ filter (skill_hit (set us)) rs, mi @ filter (\<lambda>r. \<not> skill_hit (set us) r) rs)"
proof (induction rs arbitrary: m mi)
  case Nil
  then show ?case by simp
next
  case (Cons r rs)
  show ?case
    by (simp add: Cons.IH skill_hit_def partial_match_iff Let_def)
qed

lemma analyze_known:
  assumes "map_of db c = Some info"
  shows "analyze_skill_gap it db us c =
     (let U = set (it (map (\<lambda>s. strip (lower s)) us)); rs = it (skills info);
          m = filter (skill_hit U) rs
      in Gap_Report \<lparr>matched_skills = m,
       missing_skills = filter (\<lambda>r. \<not> skill_hit U r) rs,
       match_percentage = (if rs \<noteq> [] then real (length m) / real (length rs) * 100 else 0),
       total_required = length rs,
       total_matched = length m\<rparr>)"
  using assms by (simp add: analyze_skill_gap_def gap_loop_eq Let_def)

lemma set_iter_user: "set_iter_ok it \<Longrightarrow> set (it (map (\<lambda>s. strip (lower s)) us)) = user_set us"
  by (simp add: set_iter_ok_def user_set_def)

lemma set_iter_set: "set_iter_ok it \<Longrightarrow> set (it xs) = set xs"
  by (simp add: set_iter_ok_def)

lemma set_iter_distinct: "set_iter_ok it \<Longrightarrow> distinct (it xs)"
  by (simp add: set_iter_ok_def)

lemma set_iter_length: "set_iter_ok it \<Longrightarrow> length (it xs) = card (set xs)"
  by (metis distinct_card set_iter_distinct set_iter_set)

lemma set_iter_remdups: "set_iter_ok remdups"
  by (simp add: set_iter_ok_def)

lemma set_iter_reversed: "set_iter_ok reversed_iter"
  by (simp add: set_iter_ok_def reversed_iter_def)

lemma skill_hit_user_set:
  "skill_hit (user_set us) r \<longleftrightarrow>
     (\<exists>u\<in>set us. strip (lower u) = lower r) \<or>
     (\<exists>u\<in>set us. py_in (strip (lower u)) (lower r) \<or> py_in (lower r) (strip (lower u)))"
  unfolding skill_hit_def user_set_def image_iff bex_simps by metis

lemma length_filter_mono:
  "(\<And>x. P x \<Longrightarrow> Q x) \<Longrightarrow> length (filter P xs) \<le> length (filter Q xs)"
  by (induction xs) auto

lemma skill_hit_mono: "U \<subseteq> V \<Longrightarrow> skill_hit U r \<Longrightarrow> skill_hit V r"
  by (auto simp: skill_hit_def)

lemma skill_hit_blank: "[] \<in> U \<Longrightarrow> skill_hit U r"
  unfolding skill_hit_def using py_in_Nil by blast

lemma map_of_data_scientist: "map_of CAREER_DATABASE ''Data Scientist'' = Some data_scientist"
  by (simp add: CAREER_DATABASE_def data_scientist_def)

lemma analyze_set_eq:
  assumes "set_iter_ok it" and "set us = set us'"
  shows "analyze_skill_gap it db us c = analyze_skill_gap it db us' c"
proof (cases "map_of db c")
  case None
  then show ?thesis by (simp add: analyze_skill_gap_def)
next
  case (Some info)
  have "user_set us = user_set us'"
    using assms(2) by (simp add: user_set_def)
  then show ?thesis
    by (simp add: analyze_known [OF Some] set_iter_user [OF assms(1)])
qed

section \<open>The learning-path loop and decimal numerals\<close>

lemma digit_value_digit_char: "d < 10 \<Longrightarrow> digit_value (digit_char d) = d"
proof -
  assume "d < 10"
  then have "d \<in> {0, 1, 2, 3, 4, 5, 6, 7, 8, 9}" by auto
  then show ?thesis
    by (auto simp: digit_value_def digit_char_def)
qed

lemma read_nat_str_nat: "read_nat (str_nat n) = n"
proof (induction n rule: str_nat.induct)
  case (1 n)
  show ?case
  proof (cases "n < 10")
    case True
    then show ?thesis
      by (subst str_nat.simps) (simp add: read_nat_def digit_value_digit_char)
  next
    case False
    with 1 have "read_nat (str_nat (n div 10)) = n div 10" by simp
    with False show ?thesis
      by (subst str_nat.simps) (simp add: read_nat_def digit_value_digit_char)
  qed
qed

lemma learning_loop_eq: "learning_loop ms acc = acc @ map spec_bundle ms"
  by (induction ms arbitrary: acc) (auto simp: spec_bundle_def split: option.splits)

theorem learning_path_example:
  "get_learning_path [''Machine Learning'', ''sql'', ''NLP''] ''Data Scientist'' =
     \<lparr>career = ''Data Scientist'',
      skills_to_learn =
        [\<lparr>bundle_skill = ''Machine Learning'', level = ''Intermediate-Advanced'',
           resources = [''Coursera ML Course'', ''Fast.ai'', ''Kaggle''], time = ''3-4 months''\<rparr>,
         \<lparr>bundle_skill = ''sql'', level = ''Intermediate'',
           resources = [''Online Courses'', ''Documentation'', ''Practice Projects''], time = ''2-3 months''\<rparr>,
         \<lparr>bundle_skill = ''NLP'', level = ''Intermediate'',
           resources = [''Online Courses'', ''Documentation'', ''Practice Projects''], time = ''2-3 months''\<rparr>],
      estimated_time = ''6-9 months''\<rparr>"
  by code_simp

section \<open>The engine and the ranking loop\<close>

lemma engine_of_simps:
  "career_database (engine_of db) = db"
  "career_names (engine_of db) = map fst db"
  "length (skill_matrix (engine_of db)) = length db"
  by (simp_all add: engine_of_def Let_def career_texts_def)

lemma vocabulary_engine_of: "vocabulary (engine_of db) = fit_vocabulary (career_texts db)"
  by (simp add: engine_of_def Let_def)

lemma build_model_Inr: "build_model db = Inr eng \<Longrightarrow> eng = engine_of db"
  by (auto simp: build_model_def split: if_splits)

lemma length_similarities: "length (similarities eng us) = length (skill_matrix eng)"
  by (simp add: similarities_def cosine_similarity_def Let_def)

lemma map_of_key: "i < length db \<Longrightarrow> \<exists>info. map_of db (map fst db ! i) = Some info"
proof -
  assume "i < length db"
  then have "map fst db ! i \<in> fst ` set db"
    by (metis length_map nth_mem set_map)
  then show ?thesis
    by (metis domD dom_map_of_conv_image_fst)
qed

lemma recommend_loop_eq:
  assumes "\<forall>i\<in>set idxs. i < length db" and "length sims = length db"
  shows "recommend_loop it (engine_of db) us sims idxs acc =
     Inr (acc @ map (rec_entry it (engine_of db) us sims) idxs)"
  using assms(1)
proof (induction idxs arbitrary: acc)
  case Nil
  then show ?case by simp
next
  case (Cons i idxs)
  then have i: "i < length db" by simp
  then obtain info where info: "map_of db (map fst db ! i) = Some info"
    using map_of_key by blast
  have "recommend_loop it (engine_of db) us sims (i # idxs) acc =
      recommend_loop it (engine_of db) us sims idxs (acc @ [rec_entry it (engine_of db) us sims i])"
    using i info assms(2) by (simp add: engine_of_simps rec_entry_def Let_def)
  also have "\<dots> = Inr ((acc @ [rec_entry it (engine_of db) us sims i]) @
      map (rec_entry it (engine_of db) us sims) idxs)"
    using Cons.prems by (intro Cons.IH) simp
  finally show ?case by simp
qed

lemma argsort_ok_set: "argsort_ok srt \<Longrightarrow> set (srt xs) = {0..<length xs}"
  by (metis argsort_ok_def set_mset_mset set_upt)

lemma argsort_ok_length: "argsort_ok srt \<Longrightarrow> length (srt xs) = length xs"
  by (metis argsort_ok_def size_mset length_upt diff_zero)

lemma argsort_ok_sorted: "argsort_ok srt \<Longrightarrow> sorted (map (\<lambda>i. xs ! i) (srt xs))"
  by (simp add: argsort_ok_def)

lemma argsort_ok_stable: "argsort_ok argsort_stable"
  by (simp add: argsort_ok_def argsort_stable_def)

lemma slice_to_take: "\<exists>k. slice_to n xs = take k xs"
  by (auto simp: slice_to_def)

lemma set_slice_to: "set (slice_to n xs) \<subseteq> set xs"
  using slice_to_take [of n xs] by (metis set_take_subset)

lemma recommend_careers_eq:
  assumes "argsort_ok srt"
  shows "recommend_careers it srt (engine_of db) us top_n =
     Inr (map (rec_entry it (engine_of db) us (similarities (engine_of db) us))
            (slice_to top_n (rev (srt (similarities (engine_of db) us)))))"
proof -
  let ?sims = "similarities (engine_of db) us"
  have len: "length ?sims = length db"
    by (simp add: length_similarities engine_of_simps)
  have "set (slice_to top_n (rev (srt ?sims))) \<subseteq> {0..<length db}"
    using set_slice_to [of top_n "rev (srt ?sims)"] argsort_ok_set [OF assms, of ?sims] len
    by simp
  then have "\<forall>i\<in>set (slice_to top_n (rev (srt ?sims))). i < length db" by auto
  from recommend_loop_eq [OF this len, of it us "[]"] show ?thesis
    by (simp add: recommend_careers_def Let_def)
qed

lemma rec_entry_sel:
  "rec_name (rec_entry it eng us sims i) = career_names eng ! i"
  "rec_score (rec_entry it eng us sims i) = sims ! i * 100"
  by (simp_all add: rec_name_def rec_score_def rec_entry_def)

lemma name_scores_entries:
  "name_scores (Inr (map (rec_entry it eng us sims) idxs)) =
     Inr (map (\<lambda>i. (career_names eng ! i, sims ! i * 100)) idxs)"
  by (simp add: name_scores_def rec_entry_sel comp_def)

lemma sorted_desc_indices:
  assumes "argsort_ok srt"
  shows "sorted_wrt (\<ge>) (map (\<lambda>i. xs ! i * 100) (take k (rev (srt xs))))"
proof -
  have "sorted (map (\<lambda>i. xs ! i) (srt xs))"
    using assms by (rule argsort_ok_sorted)
  then have "sorted_wrt (\<le>) (map (\<lambda>i. xs ! i * 100) (srt xs))"
    by (simp add: sorted_wrt_map sorted_map)
  then have "sorted_wrt (\<ge>) (rev (map (\<lambda>i. xs ! i * 100) (srt xs)))"
    by (simp add: sorted_wrt_rev)
  then have "sorted_wrt (\<ge>) (take k (rev (map (\<lambda>i. xs ! i * 100) (srt xs))))"
    by (rule sorted_wrt_take)
  then show ?thesis by (simp add: rev_map take_map)
qed

lemma all_indices_names:
  assumes "argsort_ok srt" and "length xs = length names"
  shows "mset (map ((!) names) (rev (srt xs))) = mset names"
proof -
  have "mset (rev (srt xs)) = mset [0..<length names]"
    using assms by (simp add: argsort_ok_def)
  then have "mset (map ((!) names) (rev (srt xs))) = mset (map ((!) names) [0..<length names])"
    by (metis mset_map)
  then show ?thesis by (simp add: map_nth)
qed

lemma recommend_loop_cong:
  assumes "\<And>c. analyze_skill_gap it (career_database eng) us c
       = analyze_skill_gap it (career_database eng) us' c"
  shows "recommend_loop it eng us sims idxs acc = recommend_loop it eng us' sims idxs acc"
proof (induction idxs arbitrary: acc)
  case Nil
  show ?case by simp
next
  case (Cons i idxs)
  show ?case
    by (simp only: recommend_loop.simps Let_def assms Cons.IH)
qed

section \<open>Similarities: zero vectors and reordered input\<close>

lemma tokenize_Nil: "tokenize [] = []"
  by (simp add: tokenize_def lower_def)

lemma l2_norm_zeros: "l2_norm (replicate n 0) = 0"
  by (simp add: l2_norm_def sum_list_replicate)

lemma dot_zeros: "dot (replicate n 0) v = 0"
proof (induction n arbitrary: v)
  case 0
  then show ?case by (simp add: dot_def)
next
  case (Suc n)
  then show ?case by (cases v) (simp_all add: dot_def)
qed

lemma similarities_no_overlap:
  assumes "list_all (\<lambda>t. t \<notin> set (tokenize (join_space us))) (vocabulary eng)"
  shows "similarities eng us = replicate (length (skill_matrix eng)) 0"
proof -
  have c: "map (\<lambda>t. real (count_list (tokenize (join_space us)) t)) (vocabulary eng)
      = map (\<lambda>t. 0) (vocabulary eng)"
    using assms by (intro map_cong) (auto simp: list_all_iff count_list_0_iff)
  have "map2 (*) (map (\<lambda>t. 0) vocab) idfs = replicate (min (length vocab) (length idfs)) (0::real)"
    for vocab :: "string list" and idfs
  proof (induction vocab arbitrary: idfs)
    case Nil
    then show ?case by simp
  next
    case (Cons t vocab)
    then show ?case by (cases idfs) simp_all
  qed
  then have "tfidf_transform (vocabulary eng) (idf eng) (join_space us)
      = replicate (min (length (vocabulary eng)) (length (idf eng))) 0"
    by (simp add: tfidf_transform_def c l2_normalize_def l2_norm_zeros)
  then show ?thesis
    by (simp add: similarities_def cosine_similarity_def Let_def
      l2_normalize_def l2_norm_zeros dot_zeros map_replicate_const)
qed

lemma similarities_empty: "similarities eng [] = replicate (length (skill_matrix eng)) 0"
  by (rule similarities_no_overlap) (simp add: tokenize_Nil list_all_iff)

lemma lower_char_space: "lower_char (CHR '' '') = CHR '' ''"
  by (simp add: lower_char_def)

lemma word_runs_space: "word_runs cur (a @ CHR '' '' # b) = word_runs cur a @ word_runs [] b"
  by (induction a arbitrary: cur) (simp_all add: word_char_def)

lemma tokenize_space: "tokenize (a @ CHR '' '' # b) = tokenize a @ tokenize b"
  by (simp add: tokenize_def lower_def lower_char_space word_runs_space)

lemma tokenize_join: "tokenize (join_space us) = concat (map tokenize us)"
  by (induction us rule: join_space.induct) (simp_all add: tokenize_Nil tokenize_space)

lemma mset_concat_map: "mset (concat (map f xs)) = (\<Sum>x\<in>#mset xs. mset (f x))"
  by (induction xs) simp_all

lemma count_tokens_perm:
  assumes "mset us = mset us'"
  shows "count_list (tokenize (join_space us)) t = count_list (tokenize (join_space us')) t"
proof -
  have "mset (tokenize (join_space us)) = mset (tokenize (join_space us'))"
    by (simp add: tokenize_join mset_concat_map assms)
  then show ?thesis by (metis count_mset)
qed

lemma similarities_perm:
  assumes "mset us = mset us'"
  shows "similarities eng us = similarities eng us'"
  by (simp add: similarities_def tfidf_transform_def count_tokens_perm [OF assms])

section \<open>Ties under the stable argsort\<close>

lemma argsort_stable_zeros: "argsort_stable (replicate n 0) = [0..<n]"
proof -
  have "map (\<lambda>i. replicate n (0::real) ! i) [0..<n] = map (\<lambda>i. 0) [0..<n]"
    by (rule map_cong) auto
  then have "sorted (map (\<lambda>i. replicate n (0::real) ! i) [0..<n])"
    by (simp add: map_replicate_const)
  then show ?thesis
    by (simp add: argsort_stable_def sort_key_id_if_sorted)
qed

lemma insort_key_lex:
  fixes f :: "nat \<Rightarrow> real"
  assumes "sorted_wrt (\<lambda>i j. f i < f j \<or> (f i = f j \<and> i < j)) ys" and "\<forall>y\<in>set ys. x < y"
  shows "sorted_wrt (\<lambda>i j. f i < f j \<or> (f i = f j \<and> i < j)) (insort_key f x ys)"
  using assms
proof (induction ys)
  case Nil
  then show ?case by simp
next
  case (Cons y ys)
  show ?case
  proof (cases "f x \<le> f y")
    case True
    have "\<forall>z\<in>set ys. f x < f z \<or> (f x = f z \<and> x < z)"
      using Cons.prems True by fastforce
    with Cons.prems True show ?thesis by auto
  next
    case False
    with Cons show ?thesis by (auto simp: set_insort_key)
  qed
qed

lemma sort_key_lex:
  fixes f :: "nat \<Rightarrow> real"
  assumes "sorted_wrt (<) xs"
  shows "sorted_wrt (\<lambda>i j. f i < f j \<or> (f i = f j \<and> i < j)) (sort_key f xs)"
  using assms
proof (induction xs)
  case Nil
  then show ?case by simp
next
  case (Cons x xs)
  then show ?case by (auto intro!: insort_key_lex)
qed

lemma argsort_stable_ties: "sorted_wrt (tie_desc xs) (take k (rev (argsort_stable xs)))"
proof -
  have "sorted_wrt (\<lambda>i j. xs ! i < xs ! j \<or> (xs ! i = xs ! j \<and> i < j)) (argsort_stable xs)"
    unfolding argsort_stable_def by (rule sort_key_lex) (simp add: sorted_wrt_upt)
  then have "sorted_wrt (tie_desc xs) (rev (argsort_stable xs))"
    by (simp add: sorted_wrt_rev tie_desc_def [abs_def])
  then show ?thesis by (rule sorted_wrt_take)
qed

lemma names_stable_zeros:
  "map ((!) names) (take k (rev (argsort_stable (replicate (length names) 0)))) = take k (rev names)"
proof -
  have "map ((!) names) (rev [0..<length names]) = rev names"
    by (simp add: rev_map [symmetric] map_nth)
  then show ?thesis
    by (simp add: argsort_stable_zeros take_map [symmetric])
qed

section \<open>Concrete catalogs\<close>

lemma vocab_shipped_nonempty: "fit_vocabulary (career_texts CAREER_DATABASE) \<noteq> []"
  by code_simp

lemma build_model_shipped: "build_model CAREER_DATABASE = Inr (engine_of CAREER_DATABASE)"
  by (simp add: build_model_def vocab_shipped_nonempty)

lemma names_shipped:
  "map fst CAREER_DATABASE =
     [''Data Scientist'', ''Software Engineer'', ''Product Manager'', ''DevOps Engineer'',
      ''UX Designer'', ''Cloud Architect'', ''AI Engineer'', ''Business Analyst'',
      ''Cybersecurity Specialist'', ''Data Engineer'']"
  by code_simp

lemma length_shipped: "length CAREER_DATABASE = 10"
  by code_simp

lemma cooking_no_overlap:
  "list_all (\<lambda>t. t \<notin> set (tokenize (join_space [''Cooking'']))) (fit_vocabulary (career_texts CAREER_DATABASE))"
  by code_simp

lemma analyst_texts: "career_texts analyst_db = [''SQL Excel'']"
  by code_simp

lemma analyst_vocab: "fit_vocabulary [''SQL Excel''] = [''sql'', ''excel'']"
  by code_simp

lemma analyst_df:
  "doc_freq [''SQL Excel''] ''sql'' = 1"
  "doc_freq [''SQL Excel''] ''excel'' = 1"
  by code_simp+

lemma analyst_idf: "fit_idf [''SQL Excel''] = [1, 1]"
  by (simp add: fit_idf_def analyst_vocab analyst_df)

lemma analyst_tokens:
  "tokenize ''SQL Excel'' = [''sql'', ''excel'']"
  "tokenize ''SQL SQL Excel'' = [''sql'', ''sql'', ''excel'']"
  by code_simp+

lemma analyst_joins:
  "join_space [''SQL'', ''Excel''] = ''SQL Excel''"
  "join_space [''SQL'', ''SQL'', ''Excel''] = ''SQL SQL Excel''"
  by simp_all

lemma l2_normalize_ones: "l2_normalize [1, 1] = [1 / sqrt 2, 1 / sqrt 2]"
  by (simp add: l2_normalize_def l2_norm_def)

lemma l2_normalize_two_one: "l2_normalize [2, 1] = [2 / sqrt 5, 1 / sqrt 5]"
  by (simp add: l2_normalize_def l2_norm_def)

lemma l2_normalize_unit2: "l2_normalize [1 / sqrt 2, 1 / sqrt 2] = [1 / sqrt 2, 1 / sqrt 2]"
proof -
  have "1 / sqrt 2 * (1 / sqrt 2) + 1 / sqrt 2 * (1 / sqrt 2) = (1::real)"
    by (simp add: field_simps)
  then have "l2_norm [1 / sqrt 2, 1 / sqrt 2] = 1"
    by (simp add: l2_norm_def)
  then show ?thesis by (simp add: l2_normalize_def)
qed

lemma l2_normalize_unit5: "l2_normalize [2 / sqrt 5, 1 / sqrt 5] = [2 / sqrt 5, 1 / sqrt 5]"
proof -
  have "2 / sqrt 5 * (2 / sqrt 5) + 1 / sqrt 5 * (1 / sqrt 5) = (1::real)"
    by (simp add: field_simps)
  then have "l2_norm [2 / sqrt 5, 1 / sqrt 5] = 1"
    by (simp add: l2_norm_def)
  then show ?thesis by (simp add: l2_normalize_def)
qed

lemma analyst_engine:
  "vocabulary (engine_of analyst_db) = [''sql'', ''excel'']"
  "idf (engine_of analyst_db) = [1, 1]"
  "skill_matrix (engine_of analyst_db) = [[1 / sqrt 2, 1 / sqrt 2]]"
  by (simp_all add: engine_of_def Let_def analyst_vocab analyst_idf analyst_texts
      tfidf_transform_def analyst_tokens l2_normalize_ones)

lemma analyst_similarities:
  "similarities (engine_of analyst_db) [''SQL'', ''Excel''] = [1]"
  "similarities (engine_of analyst_db) [''SQL'', ''SQL'', ''Excel''] = [3 / (sqrt 5 * sqrt 2)]"
  by (simp_all add: similarities_def Let_def analyst_engine analyst_joins tfidf_transform_def
      analyst_tokens l2_normalize_ones l2_normalize_two_one cosine_similarity_def l2_normalize_unit2 l2_normalize_unit5 dot_def)

lemma build_model_analyst: "build_model analyst_db = Inr (engine_of analyst_db)"
  by (simp add: build_model_def analyst_texts analyst_vocab)

lemma argsort_stable_single: "slice_to 5 (rev (argsort_stable [x])) = [0]"
  by (simp add: argsort_stable_def slice_to_def)

lemma dup_score_less: "300 / (sqrt 5 * sqrt 2) < (100::real)"
proof -
  have "(3::real) < sqrt 10"
    by (rule real_less_rsqrt) simp
  also have "sqrt 10 = sqrt 5 * sqrt 2"
    by (simp flip: real_sqrt_mult)
  finally have "3 < sqrt 5 * sqrt 2" .
  then show ?thesis by (simp add: field_simps)
qed

section \<open>The claims\<close>

subsection \<open>C1: which required skills count as matched\<close>

text \<open>
  Claim C1, as amended. For a career of the catalog and a required skill \<open>r\<close> of it, the
  report lists \<open>r\<close> as matched exactly when the lower-cased \<open>r\<close> equals the lower-cased,
  stripped form of some user skill, or some such user skill is a substring of the
  lower-cased \<open>r\<close>, or the lower-cased \<open>r\<close> is a substring of some such user skill; and it
  lists \<open>r\<close> as missing exactly when none of these holds. The code lower-cases the required
  skill and does not strip it; only the user skills are stripped.
\<close>

theorem gap_match_rule:
  assumes "set_iter_ok it" and "map_of db c = Some info" and "r \<in> set (skills info)"
  shows "\<exists>g. analyze_skill_gap it db us c = Gap_Report g \<and>
     (r \<in> set (matched_skills g) \<longleftrightarrow>
        (\<exists>u\<in>set us. strip (lower u) = lower r) \<or>
        (\<exists>u\<in>set us. py_in (strip (lower u)) (lower r) \<or> py_in (lower r) (strip (lower u)))) \<and>
     (r \<in> set (missing_skills g) \<longleftrightarrow>
        \<not> ((\<exists>u\<in>set us. strip (lower u) = lower r) \<or>
           (\<exists>u\<in>set us. py_in (strip (lower u)) (lower r) \<or> py_in (lower r) (strip (lower u)))))"
proof -
  have r: "r \<in> set (it (skills info))"
    using assms(1,3) by (simp add: set_iter_set)
  show ?thesis
    using r by (simp add: analyze_known [OF assms(2)] Let_def set_iter_user [OF assms(1)]
        skill_hit_user_set)
qed

text \<open>
  The rule at work on the shipped catalog: the user skill \<^verbatim>\<open>"  STAT "\<close> normalises to
  \<^verbatim>\<open>"stat"\<close>, a substring of \<^verbatim>\<open>"statistics"\<close>, so Statistics is matched.
\<close>

theorem gap_match_rule_witness:
  "set_iter_ok remdups \<and> map_of CAREER_DATABASE ''Data Scientist'' = Some data_scientist \<and>
   ''Statistics'' \<in> set (skills data_scientist) \<and>
   (\<exists>g. analyze_skill_gap remdups CAREER_DATABASE [''  STAT '', ''sql''] ''Data Scientist'' = Gap_Report g \<and>
     (''Statistics'' \<in> set (matched_skills g) \<longleftrightarrow>
        (\<exists>u\<in>set [''  STAT '', ''sql'']. strip (lower u) = lower ''Statistics'') \<or>
        (\<exists>u\<in>set [''  STAT '', ''sql'']. py_in (strip (lower u)) (lower ''Statistics'') \<or> py_in (lower ''Statistics'') (strip (lower u)))) \<and>
     (''Statistics'' \<in> set (missing_skills g) \<longleftrightarrow>
        \<not> ((\<exists>u\<in>set [''  STAT '', ''sql'']. strip (lower u) = lower ''Statistics'') \<or>
           (\<exists>u\<in>set [''  STAT '', ''sql'']. py_in (strip (lower u)) (lower ''Statistics'') \<or> py_in (lower ''Statistics'') (strip (lower u)))))) \<and>
   analyze_skill_gap remdups CAREER_DATABASE [''  STAT '', ''sql''] ''Data Scientist'' =
     Gap_Report \<lparr>matched_skills = [''Statistics'', ''SQL''],
       missing_skills = [''Python'', ''Machine Learning'', ''Data Visualization'', ''Deep Learning'', ''NLP''],
       match_percentage = 200 / 7, total_required = 7, total_matched = 2\<rparr>"
proof -
  have h1: "set_iter_ok remdups" by (rule set_iter_remdups)
  have h2: "map_of CAREER_DATABASE ''Data Scientist'' = Some data_scientist"
    by (rule map_of_data_scientist)
  have h3: "''Statistics'' \<in> set (skills data_scientist)"
    by (simp add: data_scientist_def)
  have v: "analyze_skill_gap remdups CAREER_DATABASE [''  STAT '', ''sql''] ''Data Scientist'' =
     Gap_Report \<lparr>matched_skills = [''Statistics'', ''SQL''],
       missing_skills = [''Python'', ''Machine Learning'', ''Data Visualization'', ''Deep Learning'', ''NLP''],
       match_percentage = 200 / 7, total_required = 7, total_matched = 2\<rparr>"
    by code_simp
  from gap_match_rule [OF h1 h2 h3, of "[''  STAT '', ''sql'']"] h1 h2 h3 v
  show ?thesis by blast
qed

text \<open>
  With the required skill stripped as well, as claim C1 words it, \<^verbatim>\<open>"py "\<close> would match the
  user skill \<^verbatim>\<open>"python"\<close>, since \<^verbatim>\<open>"py"\<close> is a substring of it. The code compares the
  unstripped \<^verbatim>\<open>"py "\<close>, finds no match in either direction and reports the skill missing.
\<close>

theorem gap_match_rule_counterexample:
  "analyze_skill_gap remdups
     [(''Scripting'', \<lparr>skills = [''py ''], description = ''Automate tasks'', salary_range = ''n/a'',
        growth = ''High'', experience_level = ''0-2 years''\<rparr>)]
     [''python''] ''Scripting''
   = Gap_Report \<lparr>matched_skills = [], missing_skills = [''py ''], match_percentage = 0,
       total_required = 1, total_matched = 0\<rparr>
   \<and> py_in (strip (lower ''py '')) (strip (lower ''python''))"
  by code_simp

subsection \<open>C2: the shape of a gap report\<close>

text \<open>
  Claim C2, as amended. For a career of the catalog the report holds two lists without
  repetitions that are disjoint and together hold exactly the distinct required skills.
  Both follow the iteration order of the set of required skills (which need not be the
  order the catalog declares): the matched list is that sequence restricted to the matched
  skills, the missing list is the rest of it. \<open>total_required\<close> is the number of distinct
  required skills, \<open>total_matched\<close> the length of the matched list, and the percentage is
  \<open>100 * |matched| / |required|\<close>, or \<open>0\<close> when nothing is required.
\<close>

theorem gap_report_partition:
  assumes "set_iter_ok it" and "map_of db c = Some info"
  shows "\<exists>g. analyze_skill_gap it db us c = Gap_Report g \<and>
     matched_skills g = filter (\<lambda>r. r \<in> set (matched_skills g)) (it (skills info)) \<and>
     missing_skills g = filter (\<lambda>r. r \<notin> set (matched_skills g)) (it (skills info)) \<and>
     set (matched_skills g) \<union> set (missing_skills g) = set (skills info) \<and>
     set (matched_skills g) \<inter> set (missing_skills g) = {} \<and>
     distinct (matched_skills g) \<and> distinct (missing_skills g) \<and>
     length (matched_skills g) + length (missing_skills g) = card (set (skills info)) \<and>
     total_required g = card (set (skills info)) \<and>
     total_matched g = length (matched_skills g) \<and>
     match_percentage g =
       (if skills info = [] then 0
        else 100 * real (length (matched_skills g)) / real (card (set (skills info))))"
proof -
  define U where "U = set (it (map (\<lambda>s. strip (lower s)) us))"
  define rs where "rs = it (skills info)"
  define m where "m = filter (skill_hit U) rs"
  define mi where "mi = filter (\<lambda>r. \<not> skill_hit U r) rs"
  define g where "g = \<lparr>matched_skills = m, missing_skills = mi,
       match_percentage = (if rs \<noteq> [] then real (length m) / real (length rs) * 100 else 0),
       total_required = length rs, total_matched = length m\<rparr>"
  have res: "analyze_skill_gap it db us c = Gap_Report g"
    by (simp add: analyze_known [OF assms(2)] Let_def g_def m_def mi_def U_def rs_def)
  have drs: "distinct rs" and srs: "set rs = set (skills info)"
    and lrs: "length rs = card (set (skills info))"
    using assms(1) by (simp_all add: rs_def set_iter_distinct set_iter_set set_iter_length)
  have sel: "matched_skills g = m" "missing_skills g = mi" "total_required g = length rs"
    "total_matched g = length m"
    by (simp_all add: g_def)
  have f1: "m = filter (\<lambda>r. r \<in> set m) rs"
    unfolding m_def by (rule filter_cong) auto
  have f2: "mi = filter (\<lambda>r. r \<notin> set m) rs"
    unfolding mi_def m_def by (rule filter_cong) auto
  have un: "set m \<union> set mi = set (skills info)"
    unfolding srs [symmetric] m_def mi_def by auto
  have int: "set m \<inter> set mi = {}"
    unfolding m_def mi_def by auto
  have dm: "distinct m" and dmi: "distinct mi"
    using drs by (simp_all add: m_def mi_def)
  have len: "length m + length mi = card (set (skills info))"
    unfolding lrs [symmetric] m_def mi_def by (simp add: sum_length_filter_compl)
  have e: "(rs = []) = (skills info = [])"
    using srs by (metis set_empty)
  have pct: "match_percentage g =
       (if skills info = [] then 0 else 100 * real (length m) / real (card (set (skills info))))"
    by (simp add: g_def e lrs)
  show ?thesis
  proof (intro exI [of _ g] conjI)
    show "analyze_skill_gap it db us c = Gap_Report g" by (rule res)
    show "matched_skills g = filter (\<lambda>r. r \<in> set (matched_skills g)) (it (skills info))"
      unfolding sel using f1 by (simp only: rs_def)
    show "missing_skills g = filter (\<lambda>r. r \<notin> set (matched_skills g)) (it (skills info))"
      unfolding sel using f2 by (simp only: rs_def)
    show "set (matched_skills g) \<union> set (missing_skills g) = set (skills info)"
      unfolding sel by (rule un)
    show "set (matched_skills g) \<inter> set (missing_skills g) = {}"
      unfolding sel by (rule int)
    show "distinct (matched_skills g)" unfolding sel by (rule dm)
    show "distinct (missing_skills g)" unfolding sel by (rule dmi)
    show "length (matched_skills g) + length (missing_skills g) = card (set (skills info))"
      unfolding sel by (rule len)
    show "total_required g = card (set (skills info))"
      unfolding sel by (rule lrs)
    show "total_matched g = length (matched_skills g)"
      unfolding sel by (rule refl)
    show "match_percentage g =
       (if skills info = [] then 0
        else 100 * real (length (matched_skills g)) / real (card (set (skills info))))"
      unfolding sel(1) by (rule pct)
  qed
qed

text \<open>The report of the specification's scenario, with sets iterated in insertion order.\<close>

theorem gap_report_partition_witness:
  "set_iter_ok remdups \<and> map_of CAREER_DATABASE ''Data Scientist'' = Some data_scientist \<and>
   (\<exists>g. analyze_skill_gap remdups CAREER_DATABASE [''Python'', ''SQL'', ''Statistics''] ''Data Scientist'' = Gap_Report g \<and>
     matched_skills g = filter (\<lambda>r. r \<in> set (matched_skills g)) (remdups (skills data_scientist)) \<and>
     missing_skills g = filter (\<lambda>r. r \<notin> set (matched_skills g)) (remdups (skills data_scientist)) \<and>
     set (matched_skills g) \<union> set (missing_skills g) = set (skills data_scientist) \<and>
     set (matched_skills g) \<inter> set (missing_skills g) = {} \<and>
     distinct (matched_skills g) \<and> distinct (missing_skills g) \<and>
     length (matched_skills g) + length (missing_skills g) = card (set (skills data_scientist)) \<and>
     total_required g = card (set (skills data_scientist)) \<and>
     total_matched g = length (matched_skills g) \<and>
     match_percentage g =
       (if skills data_scientist = [] then 0
        else 100 * real (length (matched_skills g)) / real (card (set (skills data_scientist)))))"
proof -
  have h1: "set_iter_ok remdups" by (rule set_iter_remdups)
  have h2: "map_of CAREER_DATABASE ''Data Scientist'' = Some data_scientist"
    by (rule map_of_data_scientist)
  from gap_report_partition [OF h1 h2, of "[''Python'', ''SQL'', ''Statistics'']"] h1 h2
  show ?thesis by blast
qed

text \<open>
  The declared order is not kept when the set of required skills is iterated in another
  order. Under \<open>reversed_iter\<close> the scenario of the specification yields the matched list
  SQL, Statistics, Python, while the declared order of these three is Python, Statistics,
  SQL.
\<close>

theorem gap_report_partition_counterexample:
  "set_iter_ok reversed_iter \<and>
   analyze_skill_gap reversed_iter CAREER_DATABASE [''Python'', ''SQL'', ''Statistics''] ''Data Scientist''
   = Gap_Report \<lparr>matched_skills = [''SQL'', ''Statistics'', ''Python''],
       missing_skills = [''NLP'', ''Deep Learning'', ''Data Visualization'', ''Machine Learning''],
       match_percentage = 300 / 7, total_required = 7, total_matched = 3\<rparr> \<and>
   filter (\<lambda>r. r \<in> set [''SQL'', ''Statistics'', ''Python'']) (skills data_scientist)
     = [''Python'', ''Statistics'', ''SQL'']"
proof -
  have "analyze_skill_gap reversed_iter CAREER_DATABASE [''Python'', ''SQL'', ''Statistics''] ''Data Scientist''
   = Gap_Report \<lparr>matched_skills = [''SQL'', ''Statistics'', ''Python''],
       missing_skills = [''NLP'', ''Deep Learning'', ''Data Visualization'', ''Machine Learning''],
       match_percentage = 300 / 7, total_required = 7, total_matched = 3\<rparr>"
    by code_simp
  moreover have "filter (\<lambda>r. r \<in> set [''SQL'', ''Statistics'', ''Python'']) (skills data_scientist)
     = [''Python'', ''Statistics'', ''SQL'']"
    by code_simp
  ultimately show ?thesis using set_iter_reversed by simp
qed

subsection \<open>C3: the ranking\<close>

text \<open>
  Claim C3, as amended. For a positive \<open>top_n\<close> the result has \<open>min top_n n\<close> entries for a
  catalog of \<open>n\<close> careers, so at most \<open>top_n\<close>, and every career when \<open>top_n\<close> is at least
  \<open>n\<close>. The scores do not increase along the result. The entries are the careers at the
  first \<open>top_n\<close> positions of the reversed argsort of the similarities, so careers with equal
  scores stand in the reverse of the order argsort gave them: under the stable argsort
  that is descending catalog index, not catalog order.
\<close>

theorem recommend_top_n:
  assumes "build_model db = Inr eng" and "argsort_ok srt" and "0 < top_n"
  shows "\<exists>recs. recommend_careers it srt eng us top_n = Inr recs \<and>
     length recs = min (nat top_n) (length db) \<and>
     sorted_wrt (\<ge>) (map rec_score recs) \<and>
     (int (length db) \<le> top_n \<longrightarrow> mset (map rec_name recs) = mset (map fst db)) \<and>
     map rec_name recs = map ((!) (map fst db)) (take (nat top_n) (rev (srt (similarities eng us)))) \<and>
     map rec_score recs =
       map (\<lambda>i. similarities eng us ! i * 100) (take (nat top_n) (rev (srt (similarities eng us)))) \<and>
     (srt = argsort_stable \<longrightarrow>
        sorted_wrt (tie_desc (similarities eng us)) (take (nat top_n) (rev (srt (similarities eng us)))))"
proof -
  have eng: "eng = engine_of db" using assms(1) by (rule build_model_Inr)
  let ?sims = "similarities eng us"
  let ?idxs = "take (nat top_n) (rev (srt ?sims))"
  let ?recs = "map (rec_entry it eng us ?sims) ?idxs"
  have len: "length ?sims = length db"
    by (simp add: eng length_similarities engine_of_simps)
  have sl: "slice_to top_n (rev (srt ?sims)) = ?idxs"
    using assms(3) by (simp add: slice_to_def)
  have res: "recommend_careers it srt eng us top_n = Inr ?recs"
    unfolding eng using recommend_careers_eq [OF assms(2), of it db us top_n] sl
    by (simp add: eng)
  have l: "length ?recs = min (nat top_n) (length db)"
    by (simp add: argsort_ok_length [OF assms(2)] len min.commute)
  have names: "map rec_name ?recs = map ((!) (map fst db)) ?idxs"
    by (simp add: comp_def rec_entry_sel eng engine_of_simps)
  have scores: "map rec_score ?recs = map (\<lambda>i. ?sims ! i * 100) ?idxs"
    by (simp add: comp_def rec_entry_sel)
  have srt: "sorted_wrt (\<ge>) (map rec_score ?recs)"
    unfolding scores using assms(2) by (rule sorted_desc_indices)
  have all: "int (length db) \<le> top_n \<longrightarrow> mset (map rec_name ?recs) = mset (map fst db)"
  proof
    assume "int (length db) \<le> top_n"
    then have "?idxs = rev (srt ?sims)"
      by (simp add: argsort_ok_length [OF assms(2)] len)
    then show "mset (map rec_name ?recs) = mset (map fst db)"
      unfolding names using all_indices_names [OF assms(2), of ?sims "map fst db"] len
      by simp
  qed
  have ties: "srt = argsort_stable \<longrightarrow> sorted_wrt (tie_desc ?sims) ?idxs"
    by (simp add: argsort_stable_ties)
  from res l srt all names scores ties show ?thesis by blast
qed

text \<open>
  On the shipped catalog with \<open>top_n = 12\<close>, more than its ten careers: all ten come back.
\<close>

theorem recommend_top_n_witness:
  "build_model CAREER_DATABASE = Inr (engine_of CAREER_DATABASE) \<and> argsort_ok argsort_stable \<and>
   (0::int) < 12 \<and> int (length CAREER_DATABASE) \<le> 12 \<and>
   (\<exists>recs. recommend_careers remdups argsort_stable (engine_of CAREER_DATABASE) [''Python'', ''SQL''] 12 = Inr recs \<and>
     length recs = min (nat 12) (length CAREER_DATABASE) \<and>
     sorted_wrt (\<ge>) (map rec_score recs) \<and>
     mset (map rec_name recs) = mset (map fst CAREER_DATABASE) \<and>
     map rec_name recs = map ((!) (map fst CAREER_DATABASE))
       (take (nat 12) (rev (argsort_stable (similarities (engine_of CAREER_DATABASE) [''Python'', ''SQL''])))) \<and>
     map rec_score recs =
       map (\<lambda>i. similarities (engine_of CAREER_DATABASE) [''Python'', ''SQL''] ! i * 100)
         (take (nat 12) (rev (argsort_stable (similarities (engine_of CAREER_DATABASE) [''Python'', ''SQL''])))) \<and>
     sorted_wrt (tie_desc (similarities (engine_of CAREER_DATABASE) [''Python'', ''SQL'']))
       (take (nat 12) (rev (argsort_stable (similarities (engine_of CAREER_DATABASE) [''Python'', ''SQL''])))))"
proof -
  have h1: "build_model CAREER_DATABASE = Inr (engine_of CAREER_DATABASE)"
    by (rule build_model_shipped)
  have h2: "argsort_ok argsort_stable" by (rule argsort_ok_stable)
  have h3: "(0::int) < 12" by simp
  have h4: "int (length CAREER_DATABASE) \<le> 12" by (simp add: length_shipped)
  from recommend_top_n [OF h1 h2 h3, of remdups "[''Python'', ''SQL'']"] h1 h2 h3 h4
  show ?thesis by blast
qed

text \<open>
  A skill that shares no token with the catalog gives every career the score \<open>0\<close>. The top
  three are then the last three careers of the catalog, last first, where claim C3 expects
  the first three in catalog order.
\<close>

theorem recommend_ties_counterexample:
  "name_scores (recommend_careers remdups argsort_stable (engine_of CAREER_DATABASE) [''Cooking''] 3)
     = Inr [(''Data Engineer'', 0), (''Cybersecurity Specialist'', 0), (''Business Analyst'', 0)] \<and>
   take 3 (map fst CAREER_DATABASE) = [''Data Scientist'', ''Software Engineer'', ''Product Manager'']"
proof -
  have sims: "similarities (engine_of CAREER_DATABASE) [''Cooking''] = replicate 10 0"
    using similarities_no_overlap [of "[''Cooking'']" "engine_of CAREER_DATABASE"] cooking_no_overlap
    by (simp add: vocabulary_engine_of engine_of_simps length_shipped)
  have idxs: "slice_to 3 (rev (argsort_stable (replicate 10 0))) = [9, 8, 7]"
    by (simp add: argsort_stable_zeros slice_to_def upt_rec)
  have "name_scores (recommend_careers remdups argsort_stable (engine_of CAREER_DATABASE) [''Cooking''] 3)
     = Inr (map (\<lambda>i. (map fst CAREER_DATABASE ! i, replicate 10 0 ! i * 100)) [9, 8, 7])"
    by (simp only: recommend_careers_eq [OF argsort_ok_stable] sims idxs name_scores_entries
        engine_of_simps)
  then show ?thesis by (simp add: names_shipped)
qed

subsection \<open>C4: a career that is not in the catalog\<close>

text \<open>
  Claim C4, as amended. For a career name that is not a key of the catalog the gap analysis
  raises nothing: it returns the empty dict. \<^verbatim>\<open>get_learning_path\<close> never looks the career
  up: it returns the plan for the given skills, with the given name in its \<open>career\<close> field.
\<close>

theorem unknown_career_result:
  assumes "c \<notin> set (map fst db)"
  shows "analyze_skill_gap it db us c = Empty_Dict \<and>
     career (get_learning_path ms c) = c \<and>
     skills_to_learn (get_learning_path ms c) = map spec_bundle ms"
proof -
  from assms have "map_of db c = None"
    by (simp add: map_of_eq_None_iff)
  then show ?thesis
    by (simp add: analyze_skill_gap_def get_learning_path_def learning_loop_eq)
qed

theorem unknown_career_witness:
  "''Astronaut'' \<notin> set (map fst CAREER_DATABASE) \<and>
   analyze_skill_gap remdups CAREER_DATABASE [''Python''] ''Astronaut'' = Empty_Dict \<and>
   career (get_learning_path [''Physics''] ''Astronaut'') = ''Astronaut'' \<and>
   skills_to_learn (get_learning_path [''Physics''] ''Astronaut'') = map spec_bundle [''Physics'']"
proof -
  have h: "''Astronaut'' \<notin> set (map fst CAREER_DATABASE)" by code_simp
  from unknown_career_result [OF h, of remdups "[''Python'']" "[''Physics'']"] h
  show ?thesis by blast
qed

text \<open>
  The name \<^verbatim>\<open>"Astronaut"\<close> is not in the shipped catalog. The analysis returns the empty
  dict and the learning path is composed as for any other name; neither call fails.
\<close>

theorem unknown_career_counterexample:
  "analyze_skill_gap remdups CAREER_DATABASE [''Python''] ''Astronaut'' = Empty_Dict \<and>
   get_learning_path [''Python''] ''Astronaut'' =
     \<lparr>career = ''Astronaut'',
      skills_to_learn = [\<lparr>bundle_skill = ''Python'', level = ''Beginner-Intermediate'',
         resources = [''Python.org'', ''Real Python'', ''Codecademy''], time = ''2-3 months''\<rparr>],
      estimated_time = ''2-3 months''\<rparr>"
  by code_simp

subsection \<open>C5: the same skills in another order, or repeated\<close>

text \<open>
  Claim C5, as amended. \<^verbatim>\<open>recommend_careers\<close> reads the engine and its arguments only, so
  equal inputs give equal results. Reordering the user skills does not change the result,
  scores included. Repeating a skill is not covered: the term counts of the user vector
  count repetitions, and the scores can change.
\<close>

theorem recommend_order_invariant:
  assumes "set_iter_ok it" and "mset us = mset us'"
  shows "recommend_careers it srt eng us top_n = recommend_careers it srt eng us' top_n"
proof -
  have "set us = set us'"
    using assms(2) by (metis set_mset_mset)
  then have a: "\<And>c. analyze_skill_gap it (career_database eng) us c
       = analyze_skill_gap it (career_database eng) us' c"
    by (rule analyze_set_eq [OF assms(1)])
  have s: "similarities eng us = similarities eng us'"
    using assms(2) by (rule similarities_perm)
  show ?thesis
    unfolding recommend_careers_def s Let_def
    by (rule recommend_loop_cong [OF a])
qed

theorem recommend_order_witness:
  "set_iter_ok remdups \<and> mset [''Python'', ''SQL''] = mset [''SQL'', ''Python''] \<and>
   recommend_careers remdups argsort_stable (engine_of CAREER_DATABASE) [''Python'', ''SQL''] 5
     = recommend_careers remdups argsort_stable (engine_of CAREER_DATABASE) [''SQL'', ''Python''] 5"
proof -
  have h1: "set_iter_ok remdups" by (rule set_iter_remdups)
  have h2: "mset [''Python'', ''SQL''] = mset [''SQL'', ''Python'']" by (simp add: add.commute)
  from recommend_order_invariant [OF h1 h2] h1 h2
  show ?thesis by blast
qed

text \<open>
  The lists SQL, Excel and SQL, SQL, Excel denote the same set. Against the one career that
  requires SQL and Excel the first scores \<open>100\<close>; the second has the term counts \<open>(2, 1)\<close>
  and scores \<open>300 / (sqrt 5 * sqrt 2)\<close>, about \<open>94.87\<close>.
\<close>

theorem recommend_duplicates_counterexample:
  "set [''SQL'', ''Excel''] = set [''SQL'', ''SQL'', ''Excel''] \<and>
   build_model analyst_db = Inr (engine_of analyst_db) \<and>
   name_scores (recommend_careers remdups argsort_stable (engine_of analyst_db) [''SQL'', ''Excel''] 5)
     = Inr [(''Analyst'', 100)] \<and>
   name_scores (recommend_careers remdups argsort_stable (engine_of analyst_db) [''SQL'', ''SQL'', ''Excel''] 5)
     = Inr [(''Analyst'', 300 / (sqrt 5 * sqrt 2))] \<and>
   300 / (sqrt 5 * sqrt 2) < (100::real)"
proof -
  have names: "career_names (engine_of analyst_db) = [''Analyst'']"
    by (simp add: engine_of_simps analyst_db_def)
  have a: "name_scores (recommend_careers remdups argsort_stable (engine_of analyst_db) [''SQL'', ''Excel''] 5)
     = Inr (map (\<lambda>i. ([''Analyst''] ! i, [1] ! i * 100)) [0])"
    by (simp only: recommend_careers_eq [OF argsort_ok_stable] analyst_similarities
        argsort_stable_single name_scores_entries names)
  have b: "name_scores (recommend_careers remdups argsort_stable (engine_of analyst_db) [''SQL'', ''SQL'', ''Excel''] 5)
     = Inr (map (\<lambda>i. ([''Analyst''] ! i, [3 / (sqrt 5 * sqrt 2)] ! i * 100)) [0])"
    by (simp only: recommend_careers_eq [OF argsort_ok_stable] analyst_similarities
        argsort_stable_single name_scores_entries names)
  have s: "set [''SQL'', ''Excel''] = set [''SQL'', ''SQL'', ''Excel'']" by simp
  show ?thesis
    using dup_score_less build_model_analyst s by (simp add: a b)
qed

subsection \<open>C6: no user skills\<close>

text \<open>
  Claim C6, as amended. With an empty skill list and a positive \<open>top_n\<close> the call returns a
  list, no error: every similarity is \<open>0\<close>, every returned score is \<open>0\<close>, and \<open>min top_n n\<close>
  careers are returned (every career only when \<open>top_n\<close> is at least \<open>n\<close>; the default is
  \<open>5\<close>). Their order is the reversed argsort of the all-zero array: under the stable argsort
  the catalog read backwards, not catalog order.
\<close>

theorem recommend_empty_skills:
  assumes "build_model db = Inr eng" and "argsort_ok srt" and "0 < top_n"
  shows "\<exists>recs. recommend_careers it srt eng [] top_n = Inr recs \<and>
     similarities eng [] = replicate (length db) 0 \<and>
     list_all (\<lambda>r. rec_score r = 0) recs \<and>
     length recs = min (nat top_n) (length db) \<and>
     map rec_name recs =
       map ((!) (map fst db)) (take (nat top_n) (rev (srt (replicate (length db) 0)))) \<and>
     (srt = argsort_stable \<longrightarrow> map rec_name recs = take (nat top_n) (rev (map fst db)))"
proof -
  have eng: "eng = engine_of db" using assms(1) by (rule build_model_Inr)
  have sims: "similarities eng [] = replicate (length db) 0"
    by (simp add: similarities_empty eng engine_of_simps)
  let ?idxs = "take (nat top_n) (rev (srt (replicate (length db) 0)))"
  let ?recs = "map (rec_entry it eng [] (replicate (length db) 0)) ?idxs"
  have sl: "slice_to top_n (rev (srt (replicate (length db) 0))) = ?idxs"
    using assms(3) by (simp add: slice_to_def)
  have res: "recommend_careers it srt eng [] top_n = Inr ?recs"
    using recommend_careers_eq [OF assms(2), of it db "[]" top_n] sl
    by (simp add: eng [symmetric] sims)
  have idx: "\<forall>i\<in>set ?idxs. i < length db"
    using argsort_ok_set [OF assms(2), of "replicate (length db) 0"] set_take_subset [of "nat top_n"]
    by fastforce
  have zero: "list_all (\<lambda>r. rec_score r = 0) ?recs"
    using idx by (simp add: list_all_iff rec_entry_sel)
  have l: "length ?recs = min (nat top_n) (length db)"
    by (simp add: argsort_ok_length [OF assms(2)] min.commute)
  have names: "map rec_name ?recs = map ((!) (map fst db)) ?idxs"
    by (simp add: comp_def rec_entry_sel eng engine_of_simps)
  have stable: "srt = argsort_stable \<longrightarrow> map rec_name ?recs = take (nat top_n) (rev (map fst db))"
    unfolding names using names_stable_zeros [of "map fst db" "nat top_n"] by simp
  from res sims zero l names stable show ?thesis by blast
qed

theorem recommend_empty_witness:
  "build_model CAREER_DATABASE = Inr (engine_of CAREER_DATABASE) \<and> argsort_ok argsort_stable \<and>
   (0::int) < 5 \<and>
   (\<exists>recs. recommend_careers remdups argsort_stable (engine_of CAREER_DATABASE) [] 5 = Inr recs \<and>
     similarities (engine_of CAREER_DATABASE) [] = replicate (length CAREER_DATABASE) 0 \<and>
     list_all (\<lambda>r. rec_score r = 0) recs \<and>
     length recs = min (nat 5) (length CAREER_DATABASE) \<and>
     map rec_name recs = take (nat 5) (rev (map fst CAREER_DATABASE)))"
proof -
  have h1: "build_model CAREER_DATABASE = Inr (engine_of CAREER_DATABASE)"
    by (rule build_model_shipped)
  have h2: "argsort_ok argsort_stable" by (rule argsort_ok_stable)
  have h3: "(0::int) < 5" by simp
  from recommend_empty_skills [OF h1 h2 h3, of remdups] h1 h2 h3
  show ?thesis by blast
qed

text \<open>
  The shipped catalog with no user skills: asking for ten careers returns the catalog in
  reverse, and the default \<open>top_n = 5\<close> returns its last five careers, last first.
\<close>

theorem recommend_empty_counterexample:
  "name_scores (recommend_careers remdups argsort_stable (engine_of CAREER_DATABASE) [] 10)
     = Inr [(''Data Engineer'', 0), (''Cybersecurity Specialist'', 0), (''Business Analyst'', 0),
            (''AI Engineer'', 0), (''Cloud Architect'', 0), (''UX Designer'', 0),
            (''DevOps Engineer'', 0), (''Product Manager'', 0), (''Software Engineer'', 0),
            (''Data Scientist'', 0)] \<and>
   name_scores (recommend_careers remdups argsort_stable (engine_of CAREER_DATABASE) [] 5)
     = Inr [(''Data Engineer'', 0), (''Cybersecurity Specialist'', 0), (''Business Analyst'', 0),
            (''AI Engineer'', 0), (''Cloud Architect'', 0)]"
proof -
  have sims: "similarities (engine_of CAREER_DATABASE) [] = replicate 10 0"
    by (simp add: similarities_empty engine_of_simps length_shipped)
  have idxs: "slice_to 10 (rev (argsort_stable (replicate 10 0))) = [9, 8, 7, 6, 5, 4, 3, 2, 1, 0]"
    "slice_to 5 (rev (argsort_stable (replicate 10 0))) = [9, 8, 7, 6, 5]"
    by (simp_all add: argsort_stable_zeros slice_to_def upt_rec)
  have "name_scores (recommend_careers remdups argsort_stable (engine_of CAREER_DATABASE) [] 10)
     = Inr (map (\<lambda>i. (map fst CAREER_DATABASE ! i, replicate 10 0 ! i * 100))
         [9, 8, 7, 6, 5, 4, 3, 2, 1, 0])"
    by (simp only: recommend_careers_eq [OF argsort_ok_stable] sims idxs name_scores_entries
        engine_of_simps)
  moreover have "name_scores (recommend_careers remdups argsort_stable (engine_of CAREER_DATABASE) [] 5)
     = Inr (map (\<lambda>i. (map fst CAREER_DATABASE ! i, replicate 10 0 ! i * 100)) [9, 8, 7, 6, 5])"
    by (simp only: recommend_careers_eq [OF argsort_ok_stable] sims idxs name_scores_entries
        engine_of_simps)
  ultimately show ?thesis by (simp add: names_shipped)
qed

subsection \<open>C7: a non-positive \<open>top_n\<close>\<close>

text \<open>
  Claim C7, as amended. A non-positive \<open>top_n\<close> raises nothing. The slice
  \<^verbatim>\<open>[:top_n]\<close> is empty for \<open>top_n = 0\<close>, and for \<open>top_n = - k\<close> it drops the last \<open>k\<close>
  entries of the ranking, so the call returns the first \<open>n - k\<close> careers of the ranking
  (none when \<open>k\<close> is at least \<open>n\<close>).
\<close>

theorem recommend_nonpositive_top_n:
  assumes "build_model db = Inr eng" and "argsort_ok srt" and "top_n \<le> 0"
  shows "\<exists>recs. recommend_careers it srt eng us top_n = Inr recs \<and>
     length recs = (if top_n = 0 then 0 else length db - nat (- top_n)) \<and>
     map rec_name recs =
       map ((!) (map fst db))
         (take (if top_n = 0 then 0 else length db - nat (- top_n)) (rev (srt (similarities eng us))))"
proof -
  have eng: "eng = engine_of db" using assms(1) by (rule build_model_Inr)
  let ?sims = "similarities eng us"
  let ?idxs = "slice_to top_n (rev (srt ?sims))"
  let ?recs = "map (rec_entry it eng us ?sims) ?idxs"
  have len: "length ?sims = length db"
    by (simp add: eng length_similarities engine_of_simps)
  have res: "recommend_careers it srt eng us top_n = Inr ?recs"
    unfolding eng using recommend_careers_eq [OF assms(2), of it db us top_n] by simp
  have sl: "?idxs = (if top_n = 0 then [] else take (length db - nat (- top_n)) (rev (srt ?sims)))"
    using assms(3) by (auto simp: slice_to_def argsort_ok_length [OF assms(2)] len)
  have l: "length ?recs = (if top_n = 0 then 0 else length db - nat (- top_n))"
    by (simp add: sl argsort_ok_length [OF assms(2)] len)
  have names: "map rec_name ?recs =
      map ((!) (map fst db))
        (take (if top_n = 0 then 0 else length db - nat (- top_n)) (rev (srt ?sims)))"
    unfolding sl by (simp add: comp_def rec_entry_sel eng engine_of_simps)
  from res l names show ?thesis by blast
qed

theorem recommend_nonpositive_witness:
  "build_model CAREER_DATABASE = Inr (engine_of CAREER_DATABASE) \<and> argsort_ok argsort_stable \<and>
   (- 8::int) \<le> 0 \<and>
   (\<exists>recs. recommend_careers remdups argsort_stable (engine_of CAREER_DATABASE) [''Python'', ''SQL''] (- 8) = Inr recs \<and>
     length recs = (if (- 8::int) = 0 then 0 else length CAREER_DATABASE - nat (- (- 8))) \<and>
     map rec_name recs =
       map ((!) (map fst CAREER_DATABASE))
         (take (if (- 8::int) = 0 then 0 else length CAREER_DATABASE - nat (- (- 8)))
            (rev (argsort_stable (similarities (engine_of CAREER_DATABASE) [''Python'', ''SQL''])))))"
proof -
  have h1: "build_model CAREER_DATABASE = Inr (engine_of CAREER_DATABASE)"
    by (rule build_model_shipped)
  have h2: "argsort_ok argsort_stable" by (rule argsort_ok_stable)
  have h3: "(- 8::int) \<le> 0" by simp
  from recommend_nonpositive_top_n [OF h1 h2 h3, of remdups "[''Python'', ''SQL'']"] h1 h2 h3
  show ?thesis by blast
qed

text \<open>With \<open>top_n = 0\<close> the call returns the empty list; no error is raised.\<close>

theorem recommend_zero_counterexample:
  "recommend_careers remdups argsort_stable (engine_of CAREER_DATABASE) [''Python'', ''SQL''] 0 = Inr []"
  by (simp add: recommend_careers_def slice_to_def Let_def)

subsection \<open>C8: more user skills never lose a match\<close>

text \<open>
  Claim C8. For a career of the catalog and user skill lists \<open>S\<close> and \<open>S'\<close> with every skill
  of \<open>S\<close> also in \<open>S'\<close>: the match percentage for \<open>S'\<close> is at least the one for \<open>S\<close>, and
  every required skill matched under \<open>S\<close> is matched, and not missing, under \<open>S'\<close>.
\<close>

theorem gap_monotone:
  assumes "set_iter_ok it" and "map_of db c = Some info" and "set S \<subseteq> set S'"
  shows "\<exists>g g'. analyze_skill_gap it db S c = Gap_Report g \<and>
     analyze_skill_gap it db S' c = Gap_Report g' \<and>
     match_percentage g \<le> match_percentage g' \<and>
     set (matched_skills g) \<subseteq> set (matched_skills g') \<and>
     set (matched_skills g) \<inter> set (missing_skills g') = {}"
proof -
  define rs where "rs = it (skills info)"
  have sub: "user_set S \<subseteq> user_set S'"
    using assms(3) by (auto simp: user_set_def)
  have imp: "\<And>r. skill_hit (user_set S) r \<Longrightarrow> skill_hit (user_set S') r"
    using sub by (rule skill_hit_mono)
  have le: "length (filter (skill_hit (user_set S)) rs) \<le> length (filter (skill_hit (user_set S')) rs)"
    using imp by (rule length_filter_mono)
  have pct: "real (length (filter (skill_hit (user_set S)) rs)) / real (length rs) * 100
      \<le> real (length (filter (skill_hit (user_set S')) rs)) / real (length rs) * 100"
    using le by (simp add: divide_right_mono)
  show ?thesis
    using pct imp
    by (auto simp: analyze_known [OF assms(2)] Let_def set_iter_user [OF assms(1)] rs_def)
qed

text \<open>
  On the shipped catalog: Python alone matches one of the seven skills of a data scientist,
  SQL and Python together match two.
\<close>

theorem gap_monotone_witness:
  "set_iter_ok remdups \<and> map_of CAREER_DATABASE ''Data Scientist'' = Some data_scientist \<and>
   set [''Python''] \<subseteq> set [''SQL'', ''Python''] \<and>
   (\<exists>g g'. analyze_skill_gap remdups CAREER_DATABASE [''Python''] ''Data Scientist'' = Gap_Report g \<and>
     analyze_skill_gap remdups CAREER_DATABASE [''SQL'', ''Python''] ''Data Scientist'' = Gap_Report g' \<and>
     match_percentage g \<le> match_percentage g' \<and>
     set (matched_skills g) \<subseteq> set (matched_skills g') \<and>
     set (matched_skills g) \<inter> set (missing_skills g') = {}) \<and>
   analyze_skill_gap remdups CAREER_DATABASE [''Python''] ''Data Scientist'' =
     Gap_Report \<lparr>matched_skills = [''Python''],
       missing_skills = [''Machine Learning'', ''Statistics'', ''SQL'', ''Data Visualization'', ''Deep Learning'', ''NLP''],
       match_percentage = 100 / 7, total_required = 7, total_matched = 1\<rparr> \<and>
   analyze_skill_gap remdups CAREER_DATABASE [''SQL'', ''Python''] ''Data Scientist'' =
     Gap_Report \<lparr>matched_skills = [''Python'', ''SQL''],
       missing_skills = [''Machine Learning'', ''Statistics'', ''Data Visualization'', ''Deep Learning'', ''NLP''],
       match_percentage = 200 / 7, total_required = 7, total_matched = 2\<rparr>"
proof -
  have h1: "set_iter_ok remdups" by (rule set_iter_remdups)
  have h2: "map_of CAREER_DATABASE ''Data Scientist'' = Some data_scientist"
    by (rule map_of_data_scientist)
  have h3: "set [''Python''] \<subseteq> set [''SQL'', ''Python'']" by simp
  have v1: "analyze_skill_gap remdups CAREER_DATABASE [''Python''] ''Data Scientist'' =
     Gap_Report \<lparr>matched_skills = [''Python''],
       missing_skills = [''Machine Learning'', ''Statistics'', ''SQL'', ''Data Visualization'', ''Deep Learning'', ''NLP''],
       match_percentage = 100 / 7, total_required = 7, total_matched = 1\<rparr>"
    by code_simp
  have v2: "analyze_skill_gap remdups CAREER_DATABASE [''SQL'', ''Python''] ''Data Scientist'' =
     Gap_Report \<lparr>matched_skills = [''Python'', ''SQL''],
       missing_skills = [''Machine Learning'', ''Statistics'', ''Data Visualization'', ''Deep Learning'', ''NLP''],
       match_percentage = 200 / 7, total_required = 7, total_matched = 2\<rparr>"
    by code_simp
  from gap_monotone [OF h1 h2 h3] h1 h2 h3 v1 v2
  show ?thesis by blast
qed

subsection \<open>C9: the learning path\<close>

text \<open>
  Claim C9. The plan holds one bundle per input skill, in the input order. A skill that is a
  key of the priority table (equal as a string, case included) gets the level, resources
  and time of its entry; any other skill gets the default bundle. The estimated time is
  the text \<open>2 * count\<close>, a dash, \<open>3 * count\<close> and the word months, for \<open>count\<close> input skills.
\<close>

theorem learning_path_shape:
  "get_learning_path ms c =
     \<lparr>career = c, skills_to_learn = map spec_bundle ms,
      estimated_time = str_nat (2 * length ms) @ ''-'' @ str_nat (3 * length ms) @ '' months''\<rparr>
   \<and> map bundle_skill (skills_to_learn (get_learning_path ms c)) = ms"
  by (simp add: get_learning_path_def learning_loop_eq mult.commute spec_bundle_def comp_def
      split: option.splits) (induction ms; simp split: option.splits)

subsection \<open>C10: a blank user skill matches everything\<close>

text \<open>
  Claim C10. For a career of the catalog with at least one required skill: when some user
  skill is empty after lower-casing and stripping, every required skill is reported
  matched, so the percentage is \<open>100\<close>, the missing list is empty and \<open>total_matched\<close>
  equals \<open>total_required\<close>.
\<close>

theorem blank_user_skill_matches_all:
  assumes "set_iter_ok it" and "map_of db c = Some info" and "skills info \<noteq> []"
    and "u \<in> set us" and "strip (lower u) = []"
  shows "\<exists>g. analyze_skill_gap it db us c = Gap_Report g \<and>
     match_percentage g = 100 \<and> missing_skills g = [] \<and>
     matched_skills g = it (skills info) \<and>
     total_matched g = total_required g"
proof -
  have "[] \<in> user_set us"
    using assms(4,5) by (force simp: user_set_def)
  then have hit: "\<And>r. skill_hit (user_set us) r"
    by (rule skill_hit_blank)
  have ne: "it (skills info) \<noteq> []"
    using assms(1,3) by (metis set_iter_set set_empty)
  show ?thesis
    using ne by (simp add: analyze_known [OF assms(2)] Let_def set_iter_user [OF assms(1)] hit)
qed

text \<open>
  On the shipped catalog: the user skills Cooking and a blank string match all seven skills
  of a data scientist.
\<close>

theorem blank_user_skill_witness:
  "set_iter_ok remdups \<and> map_of CAREER_DATABASE ''Data Scientist'' = Some data_scientist \<and>
   skills data_scientist \<noteq> [] \<and> ''  '' \<in> set [''Cooking'', ''  ''] \<and> strip (lower ''  '') = [] \<and>
   (\<exists>g. analyze_skill_gap remdups CAREER_DATABASE [''Cooking'', ''  ''] ''Data Scientist'' = Gap_Report g \<and>
     match_percentage g = 100 \<and> missing_skills g = [] \<and>
     matched_skills g = remdups (skills data_scientist) \<and>
     total_matched g = total_required g) \<and>
   analyze_skill_gap remdups CAREER_DATABASE [''Cooking'', ''  ''] ''Data Scientist'' =
     Gap_Report \<lparr>matched_skills = [''Python'', ''Machine Learning'', ''Statistics'', ''SQL'',
         ''Data Visualization'', ''Deep Learning'', ''NLP''],
       missing_skills = [], match_percentage = 100, total_required = 7, total_matched = 7\<rparr>"
proof -
  have h1: "set_iter_ok remdups" by (rule set_iter_remdups)
  have h2: "map_of CAREER_DATABASE ''Data Scientist'' = Some data_scientist"
    by (rule map_of_data_scientist)
  have h3: "skills data_scientist \<noteq> []" by (simp add: data_scientist_def)
  have h4: "''  '' \<in> set [''Cooking'', ''  '']" by simp
  have h5: "strip (lower ''  '') = []" by code_simp
  have v: "analyze_skill_gap remdups CAREER_DATABASE [''Cooking'', ''  ''] ''Data Scientist'' =
     Gap_Report \<lparr>matched_skills = [''Python'', ''Machine Learning'', ''Statistics'', ''SQL'',
         ''Data Visualization'', ''Deep Learning'', ''NLP''],
       missing_skills = [], match_percentage = 100, total_required = 7, total_matched = 7\<rparr>"
    by code_simp
  from blank_user_skill_matches_all [OF h1 h2 h3 h4 h5] h1 h2 h3 h4 h5 v
  show ?thesis by blast
qed

end
